theory Spec2Isabelle
  imports Main
begin

section \<open>The patient page of medplum-hello-world\<close>

text \<open>
  A shallow embedding of \<^verbatim>\<open>src/pages/PatientPage.tsx\<close>: the function component
  \<^verbatim>\<open>PatientPage\<close>, its effect, its two handlers and the helper \<^verbatim>\<open>formatDate\<close>.
  The component's hook state, the route parameter, the requests in flight and the log of
  outbound calls form one record, the world; what React, the browser or the platform do
  to the component is an event, and \<open>step\<close> gives the world after it.
\<close>

subsection \<open>JavaScript values the page formats\<close>

text \<open>
  A template literal \<^verbatim>\<open>${e}\<close> prints an absent value as the nine letters
  \<^verbatim>\<open>undefined\<close>.
\<close>

definition template :: "string option \<Rightarrow> string" where
  "template v = (case v of None \<Rightarrow> ''undefined'' | Some s \<Rightarrow> s)"

definition digit_char :: "nat \<Rightarrow> char" where
  "digit_char d = ''0123456789'' ! d"

text \<open>The decimal text of a non-negative integer (an array index or a length).\<close>

fun string_of_nat :: "nat \<Rightarrow> string" where
  "string_of_nat n =
     (if n < 10 then [digit_char n] else string_of_nat (n div 10) @ [digit_char (n mod 10)])"

declare string_of_nat.simps [simp del]

subsection \<open>The resources, as far as the page reads them\<close>

text \<open>
  The types come from \<^verbatim>\<open>@medplum/fhirtypes\<close>; every field of a resource is optional
  there. Field names carry a prefix because several resources share \<^verbatim>\<open>id\<close>,
  \<^verbatim>\<open>meta\<close> and \<^verbatim>\<open>code\<close>.
\<close>

record meta =
  lastUpdated :: "string option"

record coding =
  coding_code :: "string option"

record codeable_concept =
  cc_coding :: "coding list option"
  cc_text :: "string option"

record reference =
  ref_reference :: "string option"
  ref_display :: "string option"

record human_name =
  hn_prefix :: "string list option"
  hn_given :: "string list option"
  hn_family :: "string option"
  hn_suffix :: "string list option"

record contact_point =
  cp_system :: "string option"
  cp_value :: "string option"

record address =
  addr_line :: "string list option"
  addr_city :: "string option"
  addr_state :: "string option"

record attachment =
  att_contentType :: "string option"
  att_url :: "string option"
  att_title :: "string option"

record patient =
  p_id :: "string option"
  p_meta :: "meta option"
  p_birthDate :: "string option"
  p_name :: "human_name list option"
  p_telecom :: "contact_point list option"
  p_address :: "address list option"
  p_photo :: "attachment list option"

record service_request =
  sr_id :: "string option"
  sr_meta :: "meta option"
  sr_category :: "codeable_concept list option"
  sr_code :: "codeable_concept option"

record diagnostic_report =
  dr_resourceType :: string
  dr_id :: "string option"
  dr_meta :: "meta option"
  dr_subject :: "reference option"
  dr_status :: "string option"
  dr_code :: "codeable_concept option"

text \<open>\<^verbatim>\<open>interface PatientGraphQLResponse\<close>\<close>

record response_data =
  patient :: patient
  orders :: "service_request list"
  reports :: "diagnostic_report list"

record patient_graphql_response =
  data :: response_data

subsection \<open>What the page takes from its libraries\<close>

text \<open>
  The page calls into \<^verbatim>\<open>@medplum/core\<close>, the platform client and the JavaScript
  \<^verbatim>\<open>Date\<close> object. None of them is code of the page, so each is a field of the
  environment the model is parameterised over:
  \<^item> \<open>createReference\<close> and \<open>getReferenceString\<close> of \<^verbatim>\<open>@medplum/core\<close>;
  \<^item> \<open>createResource\<close>, the platform's answer to a create call: the stored record,
    or a rejection;
  \<^item> \<open>date_parse\<close>, the time value \<^verbatim>\<open>new Date(s)\<close> parses from a string
    (\<open>None\<close> is NaN), and \<open>locale_date\<close>, the text the host's locale gives a time value.
\<close>

datatype 'a outcome = Fulfilled 'a | Rejected

record env =
  createReference :: "patient \<Rightarrow> reference"
  getReferenceString :: "patient \<Rightarrow> string"
  createResource :: "diagnostic_report \<Rightarrow> diagnostic_report outcome"
  date_parse :: "string \<Rightarrow> int option"
  locale_date :: "int \<Rightarrow> string"

datatype js_date = Invalid_Date | Time_Value int

definition new_Date :: "env \<Rightarrow> string \<Rightarrow> js_date" where
  "new_Date E s = (case date_parse E s of None \<Rightarrow> Invalid_Date | Some t \<Rightarrow> Time_Value t)"

text \<open>
  \<^verbatim>\<open>Date.prototype.toLocaleDateString\<close> does not throw on an invalid date: it returns
  the text \<^verbatim>\<open>Invalid Date\<close>.
\<close>

definition toLocaleDateString :: "env \<Rightarrow> js_date \<Rightarrow> string" where
  "toLocaleDateString E d =
     (case d of Invalid_Date \<Rightarrow> ''Invalid Date'' | Time_Value t \<Rightarrow> locale_date E t)"

subsection \<open>formatDate\<close>

text \<open>
  \<^verbatim>\<open>if (!date) return ''\<close>: the guard holds for \<^verbatim>\<open>undefined\<close> and for the
  empty string. Neither branch has a throwing operation, so the result is a plain string.
\<close>

definition formatDate :: "env \<Rightarrow> string option \<Rightarrow> string" where
  "formatDate E date =
     (case date of
        None \<Rightarrow> ''''
      | Some s \<Rightarrow> if s = '''' then '''' else toLocaleDateString E (new_Date E s))"

text \<open>\<^verbatim>\<open>x.meta?.lastUpdated\<close>\<close>

definition meta_lastUpdated :: "meta option \<Rightarrow> string option" where
  "meta_lastUpdated m = (case m of None \<Rightarrow> None | Some x \<Rightarrow> lastUpdated x)"

subsection \<open>Optional chaining and rendered expressions\<close>

text \<open>\<^verbatim>\<open>xs?.[i]\<close>: absent when the array is absent or has no element \<open>i\<close>.\<close>

definition nth_opt :: "'a list option \<Rightarrow> nat \<Rightarrow> 'a option" where
  "nth_opt xs i =
     (case xs of None \<Rightarrow> None | Some l \<Rightarrow> if i < length l then Some (l ! i) else None)"

text \<open>\<^verbatim>\<open>xs.map((x, i) => f(x, i))\<close>\<close>

definition map_index :: "('a \<Rightarrow> nat \<Rightarrow> 'b) \<Rightarrow> 'a list \<Rightarrow> 'b list" where
  "map_index f xs = map (\<lambda>(i, x). f x i) (enumerate 0 xs)"

text \<open>\<^verbatim>\<open>xs?.map(...)\<close> as a JSX child: an absent array renders nothing.\<close>

definition opt_map_index :: "('a \<Rightarrow> nat \<Rightarrow> 'b) \<Rightarrow> 'a list option \<Rightarrow> 'b list" where
  "opt_map_index f xs = (case xs of None \<Rightarrow> [] | Some l \<Rightarrow> map_index f l)"

subsection \<open>The element tree\<close>

text \<open>
  What \<^verbatim>\<open>PatientPage\<close> returns: the tree of elements as the JSX writes it, the
  library components left as elements with their props. The two functions the page passes
  as props are named by \<open>handler\<close>.
\<close>

datatype handler = SetTab | AddDiagnosticReportClick

datatype prop_value =
    PString string
  | PNullable "string option"
  | PPatient patient
  | PAddress address
  | PContactPoint contact_point
  | PHandler handler

datatype jsx =
    Element string "(string \<times> prop_value) list" "jsx list"
  | Text string

text \<open>A JSX child \<^verbatim>\<open>{e}\<close>: a string is a text node, \<^verbatim>\<open>undefined\<close> renders nothing,
  an array of strings renders one text node for each.\<close>

definition expr :: "string option \<Rightarrow> jsx list" where
  "expr v = (case v of None \<Rightarrow> [] | Some s \<Rightarrow> [Text s])"

definition exprs :: "string list option \<Rightarrow> jsx list" where
  "exprs v = (case v of None \<Rightarrow> [] | Some l \<Rightarrow> map Text l)"

text \<open>\<^verbatim>\<open>patient?.name?.[0]\<close> and the fields read from it.\<close>

definition name0 :: "patient \<Rightarrow> human_name option" where
  "name0 p = nth_opt (p_name p) 0"

definition name0_prefix :: "patient \<Rightarrow> string list option" where
  "name0_prefix p = (case name0 p of None \<Rightarrow> None | Some n \<Rightarrow> hn_prefix n)"

definition name0_given :: "patient \<Rightarrow> nat \<Rightarrow> string option" where
  "name0_given p i = (case name0 p of None \<Rightarrow> None | Some n \<Rightarrow> nth_opt (hn_given n) i)"

definition name0_family :: "patient \<Rightarrow> string option" where
  "name0_family p = (case name0 p of None \<Rightarrow> None | Some n \<Rightarrow> hn_family n)"

definition name0_suffix :: "patient \<Rightarrow> string list option" where
  "name0_suffix p = (case name0 p of None \<Rightarrow> None | Some n \<Rightarrow> hn_suffix n)"

text \<open>\<^verbatim>\<open>o.code?.text\<close>\<close>

definition code_text :: "codeable_concept option \<Rightarrow> string option" where
  "code_text c = (case c of None \<Rightarrow> None | Some x \<Rightarrow> cc_text x)"

subsection \<open>The overview panel\<close>

definition address_entry :: "address \<Rightarrow> nat \<Rightarrow> jsx" where
  "address_entry a i =
     Element ''div'' [(''key'', PString (''address-'' @ string_of_nat i))]
       [Element ''AddressDisplay'' [(''value'', PAddress a)] []]"

definition contact_entry :: "contact_point \<Rightarrow> nat \<Rightarrow> jsx" where
  "contact_entry t i =
     Element ''div'' [(''key'', PString (''contact-'' @ string_of_nat i))]
       [Element ''ContactPointDisplay'' [(''value'', PContactPoint t)] []]"

definition order_item :: "env \<Rightarrow> service_request \<Rightarrow> nat \<Rightarrow> jsx" where
  "order_item E sr i =
     Element ''li'' [(''key'', PString (''order-'' @ string_of_nat i))]
       [Element ''a'' [(''href'', PString (''/ServiceRequest/'' @ template (sr_id sr)))]
          (expr (code_text (sr_code sr))),
        Text '' ('', Text (formatDate E (meta_lastUpdated (sr_meta sr))), Text '')'']"

definition report_item :: "env \<Rightarrow> diagnostic_report \<Rightarrow> nat \<Rightarrow> jsx" where
  "report_item E dr i =
     Element ''li'' [(''key'', PString (''report-'' @ string_of_nat i))]
       [Element ''a'' [(''href'', PString (''/DiagnosticReport/'' @ template (dr_id dr)))]
          (expr (code_text (dr_code dr)) @
           [Text '' ('', Text (formatDate E (meta_lastUpdated (dr_meta dr))), Text '')''])]"

definition patient_sidebar :: "patient \<Rightarrow> jsx" where
  "patient_sidebar p =
     Element ''div'' [(''className'', PString ''patient-sidebar'')]
       ([Element ''div'' [(''className'', PString ''patient-title'')]
           [Element ''ResourceAvatar'' [(''value'', PPatient p)] [],
            Element ''ResourceName'' [(''value'', PPatient p)] []],
         Element ''h3'' [] [Text ''Birth Date''],
         Element ''div'' [] (expr (p_birthDate p)),
         Element ''h3'' [] [Text ''Address'']]
        @ opt_map_index address_entry (p_address p)
        @ [Element ''h3'' [] [Text ''Contact'']]
        @ opt_map_index contact_entry (p_telecom p))"

definition patient_demographics ::
  "env \<Rightarrow> patient \<Rightarrow> service_request list \<Rightarrow> diagnostic_report list \<Rightarrow> jsx" where
  "patient_demographics E p os rs =
     Element ''div'' [(''className'', PString ''patient-demographics'')]
       [Element ''h3'' [] [Text ''Demographics''],
        Element ''div'' []
          [Text ''Created Date: '', Text (formatDate E (meta_lastUpdated (p_meta p)))],
        Element ''table'' []
          [Element ''tbody'' []
             [Element ''tr'' []
                [Element ''td'' [] (Text ''Prefix: '' # exprs (name0_prefix p)),
                 Element ''td'' [] (Text ''First: '' # expr (name0_given p 0)),
                 Element ''td'' [] (Text ''Middle: '' # expr (name0_given p 1)),
                 Element ''td'' [] (Text ''Last: '' # expr (name0_family p)),
                 Element ''td'' [] (Text ''Suffix: '' # exprs (name0_suffix p))]]],
        Element ''h3'' [] [Text ''Orders ('', Text (string_of_nat (length os)), Text '')''],
        Element ''ul'' [] (map_index (order_item E) os),
        Element ''h3'' [] [Text ''Reports ('', Text (string_of_nat (length rs)), Text '')''],
        Element ''ul'' [] (map_index (report_item E) rs),
        Element ''input''
          [(''type'', PString ''button''),
           (''value'', PString ''Add Diagnostic Report''),
           (''onClick'', PHandler AddDiagnosticReportClick)] []]"

definition overview_panel ::
  "env \<Rightarrow> patient \<Rightarrow> service_request list \<Rightarrow> diagnostic_report list \<Rightarrow> jsx" where
  "overview_panel E p os rs =
     Element ''Tabs.Panel'' [(''value'', PString ''overview'')]
       [patient_sidebar p, patient_demographics E p os rs]"

subsection \<open>The composed read query\<close>

text \<open>
  The template literal of the effect, character for character; \<open>i\<close> is the route
  parameter \<^verbatim>\<open>id\<close> of \<^verbatim>\<open>useParams()\<close>, absent when the route has none.
\<close>

definition query :: "string option \<Rightarrow> string" where
  "query i =
     ''{
      patient: Patient(id: \"'' @ template i @
     ''\") {
        resourceType,
        id,
        meta { lastUpdated },
        birthDate,
        name {
          given,
          family
        },
        telecom {
          system,
          value
        },
        address {
          line,
          city,
          state
        }
        photo {
          contentType,
          url,
          title
        }
      },
      orders: ServiceRequestList(subject: \"Patient/'' @ template i @
     ''\") {
        resourceType,
        id,
        meta { lastUpdated },
        category {
          text
        },
        code {
          text
        }
      },
      reports: DiagnosticReportList(subject: \"Patient/'' @ template i @
     ''\") {
        resourceType,
        id,
        meta { lastUpdated },
        code {
          text
        }
      }
    }''"

subsection \<open>The world\<close>

text \<open>
  \<open>route_id\<close> is \<^verbatim>\<open>useParams().id\<close>; \<open>tab\<close> and \<open>response\<close> are the two
  \<^verbatim>\<open>useState\<close> cells; \<open>pending\<close> holds the query of every \<^verbatim>\<open>medplum.graphql\<close>
  promise not yet settled, oldest first; \<open>calls\<close> is the log of everything the page has
  sent out.
\<close>

datatype call =
    Graphql string
  | CreateResource diagnostic_report
  | ConsoleLog string "string option"
  | Navigate string

record world =
  route_id :: "string option"
  tab :: "string option"
  response :: "patient_graphql_response option"
  pending :: "string list"
  calls :: "call list"

text \<open>
  The effect body: \<^verbatim>\<open>medplum.graphql(query).then(setResponse)\<close> sends the query and
  leaves its promise pending.
\<close>

definition run_effect :: "world \<Rightarrow> world" where
  "run_effect w =
     w\<lparr>pending := pending w @ [query (route_id w)],
       calls := calls w @ [Graphql (query (route_id w))]\<rparr>"

text \<open>
  Mounting: the state cells take their initial values (\<^verbatim>\<open>useState('overview')\<close>,
  \<^verbatim>\<open>useState()\<close>), the first render happens and the effect runs once.
\<close>

definition mount :: "string option \<Rightarrow> world" where
  "mount i =
     run_effect \<lparr>route_id = i, tab = Some ''overview'', response = None,
                 pending = [], calls = []\<rparr>"

subsection \<open>PatientPage\<close>

definition Loader :: jsx where
  "Loader = Element ''Loader'' [] []"

definition tabs_list :: jsx where
  "tabs_list =
     Element ''Tabs.List'' []
       [Element ''Tabs.Tab'' [(''value'', PString ''overview'')] [Text ''Overview''],
        Element ''Tabs.Tab'' [(''value'', PString ''timeline'')] [Text ''Timeline''],
        Element ''Tabs.Tab'' [(''value'', PString ''history'')] [Text ''History'']]"

definition page :: "env \<Rightarrow> string option \<Rightarrow> patient_graphql_response \<Rightarrow> jsx" where
  "page E t r =
     (let p = patient (data r); os = orders (data r); rs = reports (data r) in
      Element ''Fragment'' []
        [Element ''PatientHeader''
           [(''patient'', PPatient p), (''key'', PString (getReferenceString E p))] [],
         Element ''Tabs'' [(''value'', PNullable t), (''onTabChange'', PHandler SetTab)]
           [tabs_list,
            Element ''Document'' []
              [overview_panel E p os rs,
               Element ''Tabs.Panel'' [(''value'', PString ''timeline'')]
                 [Element ''PatientTimeline'' [(''patient'', PPatient p)] []],
               Element ''Tabs.Panel'' [(''value'', PString ''history'')]
                 [Element ''ResourceHistoryTable''
                    [(''resourceType'', PString ''Patient''), (''id'', PNullable (p_id p))]
                    []]]]])"

text \<open>\<^verbatim>\<open>if (!response) return <Loader />\<close>, else the page.\<close>

definition render :: "env \<Rightarrow> world \<Rightarrow> jsx" where
  "render E w = (case response w of None \<Rightarrow> Loader | Some r \<Rightarrow> page E (tab w) r)"

subsection \<open>The handlers\<close>

text \<open>
  \<^verbatim>\<open>handleAddDiagnosticReport\<close> exists in the renders that have a response: it closes
  over the patient of that response. It builds the report, sends one create call and
  returns what the platform answers.
\<close>

definition reportData :: "env \<Rightarrow> patient \<Rightarrow> diagnostic_report" where
  "reportData E p =
     \<lparr>dr_resourceType = ''DiagnosticReport'',
      dr_id = None,
      dr_meta = None,
      dr_subject = Some (createReference E p),
      dr_status = Some ''final'',
      dr_code = Some \<lparr>cc_coding = Some [\<lparr>coding_code = Some ''Progress note''\<rparr>],
                      cc_text = None\<rparr>\<rparr>"

definition handleAddDiagnosticReport ::
  "env \<Rightarrow> world \<Rightarrow> (diagnostic_report outcome \<times> world) option" where
  "handleAddDiagnosticReport E w =
     (case response w of
        None \<Rightarrow> None
      | Some r \<Rightarrow>
          (let rd = reportData E (patient (data r)) in
           Some (createResource E rd, w\<lparr>calls := calls w @ [CreateResource rd]\<rparr>)))"

text \<open>
  The button's \<^verbatim>\<open>onClick\<close>. It awaits the expression \<^verbatim>\<open>handleAddDiagnosticReport\<close>,
  which is the function, not a call of it; \<^verbatim>\<open>await\<close> of a value that is not a promise
  gives the value back. So \<^verbatim>\<open>report\<close> is the function, and a function has no
  property \<^verbatim>\<open>id\<close>.
\<close>

datatype js_value = Handler_Function | Report_Value diagnostic_report

definition await :: "js_value \<Rightarrow> js_value" where
  "await v = v"

definition value_id :: "js_value \<Rightarrow> string option" where
  "value_id v = (case v of Handler_Function \<Rightarrow> None | Report_Value r \<Rightarrow> dr_id r)"

definition onClick :: "env \<Rightarrow> world \<Rightarrow> world" where
  "onClick E w =
     (let report = await Handler_Function in
      w\<lparr>calls := calls w @
           [ConsoleLog ''Created Report'' (value_id report),
            Navigate (''/DiagnosticReport/'' @ template (value_id report))]\<rparr>)"

subsection \<open>Events\<close>

text \<open>
  \<^item> \<open>RouteChange i\<close>: the router re-renders the page with parameter \<open>i\<close>; the effect's
    dependencies are \<^verbatim>\<open>[medplum, id]\<close> and the client is the same object throughout,
    so the effect runs again exactly when \<open>i\<close> differs from the last parameter.
  \<^item> \<open>Fulfil k r\<close>: the \<open>k\<close>-th pending query promise fulfils with \<open>r\<close>, and its
    \<^verbatim>\<open>then\<close> callback, \<^verbatim>\<open>setResponse\<close>, runs.
  \<^item> \<open>Reject k\<close>: the \<open>k\<close>-th pending query promise rejects; \<^verbatim>\<open>then\<close> was given
    no second callback.
  \<^item> \<open>TabChange v\<close>: the \<^verbatim>\<open>Tabs\<close> component calls \<^verbatim>\<open>onTabChange\<close>, which is
    \<^verbatim>\<open>setTab\<close>.
  \<^item> \<open>Click\<close>: the user presses the button.
  The last two need the page on screen; an event that cannot happen gives \<open>None\<close>.
\<close>

datatype event =
    RouteChange "string option"
  | Fulfil nat patient_graphql_response
  | Reject nat
  | TabChange "string option"
  | Click

definition remove_nth :: "nat \<Rightarrow> 'a list \<Rightarrow> 'a list" where
  "remove_nth k xs = take k xs @ drop (Suc k) xs"

definition step :: "env \<Rightarrow> world \<Rightarrow> event \<Rightarrow> world option" where
  "step E w ev =
     (case ev of
        RouteChange i \<Rightarrow>
          Some (if i = route_id w then w else run_effect (w\<lparr>route_id := i\<rparr>))
      | Fulfil k r \<Rightarrow>
          if k < length (pending w)
          then Some (w\<lparr>response := Some r, pending := remove_nth k (pending w)\<rparr>)
          else None
      | Reject k \<Rightarrow>
          if k < length (pending w)
          then Some (w\<lparr>pending := remove_nth k (pending w)\<rparr>)
          else None
      | TabChange v \<Rightarrow> if response w = None then None else Some (w\<lparr>tab := v\<rparr>)
      | Click \<Rightarrow> if response w = None then None else Some (onClick E w))"

fun run :: "env \<Rightarrow> world \<Rightarrow> event list \<Rightarrow> world option" where
  "run E w [] = Some w"
| "run E w (ev # evs) = (case step E w ev of None \<Rightarrow> None | Some w' \<Rightarrow> run E w' evs)"

subsection \<open>Reading the element tree\<close>

fun nodes :: "jsx \<Rightarrow> jsx list" where
  "nodes (Text s) = [Text s]"
| "nodes (Element t ps cs) = Element t ps cs # concat (map nodes cs)"

fun text_content :: "jsx \<Rightarrow> string" where
  "text_content (Text s) = s"
| "text_content (Element t ps cs) = concat (map text_content cs)"

fun tag_of :: "jsx \<Rightarrow> string option" where
  "tag_of (Text s) = None"
| "tag_of (Element t ps cs) = Some t"

fun children :: "jsx \<Rightarrow> jsx list" where
  "children (Text s) = []"
| "children (Element t ps cs) = cs"

fun prop_of :: "jsx \<Rightarrow> string \<Rightarrow> prop_value option" where
  "prop_of (Text s) k = None"
| "prop_of (Element t ps cs) k = map_of ps k"

definition by_tag :: "string \<Rightarrow> jsx \<Rightarrow> jsx list" where
  "by_tag t x = filter (\<lambda>n. tag_of n = Some t) (nodes x)"

text \<open>The panels of a tab: the \<^verbatim>\<open>Tabs.Panel\<close> elements with that value.\<close>

definition panels :: "string \<Rightarrow> jsx \<Rightarrow> jsx list" where
  "panels v x =
     filter (\<lambda>n. tag_of n = Some ''Tabs.Panel'' \<and> prop_of n ''value'' = Some (PString v))
       (nodes x)"

definition by_class :: "string \<Rightarrow> jsx \<Rightarrow> jsx list" where
  "by_class c x = filter (\<lambda>n. prop_of n ''className'' = Some (PString c)) (nodes x)"

subsection \<open>A sample patient\<close>

text \<open>
  Concrete inputs on which the model is run: an environment whose platform stores a report
  under the identifier \<^verbatim>\<open>r-1\<close> and whose locale prints one date, the patient
  Jane A. Doe with two addresses and one contact point, three orders and no report.
\<close>

definition sample_env :: env where
  "sample_env =
     \<lparr>createReference =
        (\<lambda>p. \<lparr>ref_reference = Some (''Patient/'' @ template (p_id p)), ref_display = None\<rparr>),
      getReferenceString = (\<lambda>p. ''Patient/'' @ template (p_id p)),
      createResource = (\<lambda>d. Fulfilled (d\<lparr>dr_id := Some ''r-1''\<rparr>)),
      date_parse = (\<lambda>s. if s = ''2023-01-02T00:00:00Z'' then Some 1672617600000 else None),
      locale_date = (\<lambda>t. if t = 1672617600000 then ''1/2/2023'' else ''12/31/1999'')\<rparr>"

definition jane_name :: human_name where
  "jane_name =
     \<lparr>hn_prefix = None, hn_given = Some [''Jane'', ''A.''], hn_family = Some ''Doe'',
      hn_suffix = None\<rparr>"

definition jane :: patient where
  "jane =
     \<lparr>p_id = Some ''123'',
      p_meta = Some \<lparr>lastUpdated = Some ''2023-01-02T00:00:00Z''\<rparr>,
      p_birthDate = Some ''1980-05-06'',
      p_name = Some [jane_name],
      p_telecom = Some [\<lparr>cp_system = Some ''phone'', cp_value = Some ''555-0100''\<rparr>],
      p_address =
        Some [\<lparr>addr_line = Some [''1 Main St''], addr_city = Some ''Springfield'',
                addr_state = Some ''IL''\<rparr>,
              \<lparr>addr_line = None, addr_city = Some ''Chicago'', addr_state = Some ''IL''\<rparr>],
      p_photo = None\<rparr>"

definition sample_order :: "string \<Rightarrow> service_request" where
  "sample_order i =
     \<lparr>sr_id = Some i, sr_meta = None, sr_category = None,
      sr_code = Some \<lparr>cc_coding = None, cc_text = Some ''CBC''\<rparr>\<rparr>"

definition sample_report :: diagnostic_report where
  "sample_report =
     \<lparr>dr_resourceType = ''DiagnosticReport'', dr_id = Some ''d1'', dr_meta = None,
      dr_subject = None, dr_status = None,
      dr_code = Some \<lparr>cc_coding = None, cc_text = Some ''Note''\<rparr>\<rparr>"

definition sample_response :: patient_graphql_response where
  "sample_response =
     \<lparr>data = \<lparr>patient = jane,
               orders = [sample_order ''o1'', sample_order ''o2'', sample_order ''o3''],
               reports = []\<rparr>\<rparr>"

text \<open>Another answer, for another patient, and the page showing Jane with nothing pending.\<close>

definition other_response :: patient_graphql_response where
  "other_response =
     \<lparr>data = \<lparr>patient = jane\<lparr>p_id := Some ''456'', p_name := None\<rparr>,
               orders = [], reports = [sample_report]\<rparr>\<rparr>"

definition sample_world :: world where
  "sample_world =
     \<lparr>route_id = Some ''123'', tab = Some ''overview'', response = Some sample_response,
      pending = [], calls = [Graphql (query (Some ''123''))]\<rparr>"

text \<open>
  Three more answers: a patient whose name entry has a family name and no given name, one
  whose entry has a given name and no family name, and (above) one with no name at all.
\<close>

definition family_only_response :: patient_graphql_response where
  "family_only_response =
     \<lparr>data = \<lparr>patient =
                 jane\<lparr>p_name := Some [\<lparr>hn_prefix = None, hn_given = None,
                                         hn_family = Some ''Doe'', hn_suffix = None\<rparr>]\<rparr>,
               orders = [], reports = []\<rparr>\<rparr>"

definition given_only_response :: patient_graphql_response where
  "given_only_response =
     \<lparr>data = \<lparr>patient =
                 jane\<lparr>p_name := Some [\<lparr>hn_prefix = None, hn_given = Some [''Jane''],
                                         hn_family = None, hn_suffix = None\<rparr>]\<rparr>,
               orders = [], reports = []\<rparr>\<rparr>"

section \<open>Lemmas\<close>

subsection \<open>Mapping with an index\<close>

lemma map_index_Nil [simp]: "map_index f [] = []"
  by (simp add: map_index_def)

lemma length_map_index [simp]: "length (map_index f xs) = length xs"
  by (simp add: map_index_def)

lemma map_index_const: "map_index (\<lambda>x i. g x) xs = map g xs"
proof -
  have "map_index (\<lambda>x i. g x) xs = map (g \<circ> snd) (enumerate 0 xs)"
    by (simp add: map_index_def comp_def case_prod_unfold)
  also have "\<dots> = map g (map snd (enumerate 0 xs))" by (simp only: map_map)
  also have "\<dots> = map g xs" by (simp only: map_snd_enumerate)
  finally show ?thesis .
qed

lemma map_map_index: "map h (map_index f xs) = map_index (\<lambda>x i. h (f x i)) xs"
  by (simp add: map_index_def comp_def case_prod_unfold)

lemma concat_map_map_index:
  "concat (map h (map_index f xs)) = concat (map_index (\<lambda>x i. h (f x i)) xs)"
  by (simp add: map_index_def comp_def case_prod_unfold)

subsection \<open>Selecting nodes below a mapped list\<close>

text \<open>
  When what a selection keeps of an item does not depend on the item's index, the
  selection over the whole list is the concatenation over the array.
\<close>

lemma filter_nodes_map_index:
  assumes "\<And>x i. filter P (nodes (f x i)) = g x"
  shows "filter P (concat (map nodes (map_index f xs))) = concat (map g xs)"
proof -
  have "filter P (concat (map nodes (map_index f xs)))
        = concat (map (filter P \<circ> nodes) (map_index f xs))"
    by (simp add: filter_concat)
  also have "\<dots> = concat (map_index (\<lambda>x i. filter P (nodes (f x i))) xs)"
    by (simp add: concat_map_map_index)
  also have "\<dots> = concat (map g xs)"
    by (simp add: assms map_index_const)
  finally show ?thesis .
qed

lemma filter_nodes_map_index_none:
  assumes "\<And>x i. filter P (nodes (f x i)) = []"
  shows "filter P (concat (map nodes (map_index f xs))) = []"
  using filter_nodes_map_index [of P f "\<lambda>x. []" xs] assms by simp

lemma filter_nodes_opt_map_index:
  assumes "\<And>x i. filter P (nodes (f x i)) = g x"
  shows "filter P (concat (map nodes (opt_map_index f xs)))
         = concat (map g (case xs of None \<Rightarrow> [] | Some l \<Rightarrow> l))"
  by (cases xs) (simp_all add: opt_map_index_def filter_nodes_map_index [of P f g] assms)

lemma filter_nodes_opt_map_index_none:
  assumes "\<And>x i. filter P (nodes (f x i)) = []"
  shows "filter P (concat (map nodes (opt_map_index f xs))) = []"
  by (cases xs) (simp_all add: opt_map_index_def filter_nodes_map_index_none assms)

lemma nodes_expr [simp]: "concat (map nodes (expr v)) = expr v"
  by (cases v) (simp_all add: expr_def)

lemma nodes_exprs [simp]: "concat (map nodes (exprs v)) = exprs v"
  by (cases v) (simp_all add: exprs_def comp_def)

lemma filter_expr [simp]: "(\<And>s. \<not> P (Text s)) \<Longrightarrow> filter P (expr v) = []"
  by (cases v) (simp_all add: expr_def)

lemma filter_exprs [simp]: "(\<And>s. \<not> P (Text s)) \<Longrightarrow> filter P (exprs v) = []"
  by (cases v) (simp_all add: exprs_def)

lemma text_expr [simp]:
  "concat (map text_content (expr v)) = (case v of None \<Rightarrow> '''' | Some s \<Rightarrow> s)"
  by (cases v) (simp_all add: expr_def)

lemma text_exprs [simp]:
  "concat (map text_content (exprs v)) = (case v of None \<Rightarrow> '''' | Some l \<Rightarrow> concat l)"
  by (cases v) (simp_all add: exprs_def comp_def)

subsection \<open>The overview panel\<close>

lemma panels_overview:
  "panels ''overview'' (page E t r)
   = [overview_panel E (patient (data r)) (orders (data r)) (reports (data r))]"
proof -
  have 1: "panels ''overview'' (patient_sidebar p) = []" for p
    by (simp add: panels_def patient_sidebar_def
        filter_nodes_opt_map_index_none address_entry_def contact_entry_def)
  have 2: "panels ''overview'' (patient_demographics E p os rs) = []" for p os rs
    by (simp add: panels_def patient_demographics_def
        filter_nodes_map_index_none order_item_def report_item_def)
  show ?thesis
    using 1 2 by (simp add: panels_def page_def Let_def overview_panel_def tabs_list_def)
qed

lemma by_tag_AddressDisplay:
  "by_tag ''AddressDisplay'' (overview_panel E p os rs)
   = map (\<lambda>a. Element ''AddressDisplay'' [(''value'', PAddress a)] [])
       (case p_address p of None \<Rightarrow> [] | Some l \<Rightarrow> l)"
proof -
  have a: "filter (\<lambda>n. tag_of n = Some ''AddressDisplay'') (nodes (address_entry x i))
           = [Element ''AddressDisplay'' [(''value'', PAddress x)] []]" for x i
    by (simp add: address_entry_def)
  have c: "filter (\<lambda>n. tag_of n = Some ''AddressDisplay'') (nodes (contact_entry x i)) = []"
    for x i
    by (simp add: contact_entry_def)
  have s: "by_tag ''AddressDisplay'' (patient_sidebar p)
     = map (\<lambda>a. Element ''AddressDisplay'' [(''value'', PAddress a)] [])
       (case p_address p of None \<Rightarrow> [] | Some l \<Rightarrow> l)"
    by (simp add: by_tag_def patient_sidebar_def
        filter_nodes_opt_map_index [of _ address_entry, OF a]
        filter_nodes_opt_map_index_none [of _ contact_entry, OF c])
  have d: "by_tag ''AddressDisplay'' (patient_demographics E p os rs) = []"
    by (simp add: by_tag_def patient_demographics_def
        filter_nodes_map_index_none order_item_def report_item_def)
  from s d show ?thesis
    by (simp add: by_tag_def overview_panel_def)
qed

lemma by_tag_ContactPointDisplay:
  "by_tag ''ContactPointDisplay'' (overview_panel E p os rs)
   = map (\<lambda>c. Element ''ContactPointDisplay'' [(''value'', PContactPoint c)] [])
       (case p_telecom p of None \<Rightarrow> [] | Some l \<Rightarrow> l)"
proof -
  have a: "filter (\<lambda>n. tag_of n = Some ''ContactPointDisplay'') (nodes (address_entry x i)) = []"
    for x i
    by (simp add: address_entry_def)
  have c: "filter (\<lambda>n. tag_of n = Some ''ContactPointDisplay'') (nodes (contact_entry x i))
           = [Element ''ContactPointDisplay'' [(''value'', PContactPoint x)] []]" for x i
    by (simp add: contact_entry_def)
  have s: "by_tag ''ContactPointDisplay'' (patient_sidebar p)
     = map (\<lambda>c. Element ''ContactPointDisplay'' [(''value'', PContactPoint c)] [])
       (case p_telecom p of None \<Rightarrow> [] | Some l \<Rightarrow> l)"
    by (simp add: by_tag_def patient_sidebar_def
        filter_nodes_opt_map_index_none [of _ address_entry, OF a]
        filter_nodes_opt_map_index [of _ contact_entry, OF c])
  have d: "by_tag ''ContactPointDisplay'' (patient_demographics E p os rs) = []"
    by (simp add: by_tag_def patient_demographics_def
        filter_nodes_map_index_none order_item_def report_item_def)
  from s d show ?thesis
    by (simp add: by_tag_def overview_panel_def)
qed

lemma by_tag_td:
  "map text_content (by_tag ''td'' (overview_panel E p os rs))
   = [''Prefix: '' @ (case name0_prefix p of None \<Rightarrow> '''' | Some l \<Rightarrow> concat l),
      ''First: '' @ (case name0_given p 0 of None \<Rightarrow> '''' | Some s \<Rightarrow> s),
      ''Middle: '' @ (case name0_given p 1 of None \<Rightarrow> '''' | Some s \<Rightarrow> s),
      ''Last: '' @ (case name0_family p of None \<Rightarrow> '''' | Some s \<Rightarrow> s),
      ''Suffix: '' @ (case name0_suffix p of None \<Rightarrow> '''' | Some l \<Rightarrow> concat l)]"
proof -
  have s: "by_tag ''td'' (patient_sidebar p) = []"
    by (simp add: by_tag_def patient_sidebar_def
        filter_nodes_opt_map_index_none address_entry_def contact_entry_def)
  have d: "map text_content (by_tag ''td'' (patient_demographics E p os rs)) =
     [''Prefix: '' @ (case name0_prefix p of None \<Rightarrow> '''' | Some l \<Rightarrow> concat l),
      ''First: '' @ (case name0_given p 0 of None \<Rightarrow> '''' | Some s \<Rightarrow> s),
      ''Middle: '' @ (case name0_given p 1 of None \<Rightarrow> '''' | Some s \<Rightarrow> s),
      ''Last: '' @ (case name0_family p of None \<Rightarrow> '''' | Some s \<Rightarrow> s),
      ''Suffix: '' @ (case name0_suffix p of None \<Rightarrow> '''' | Some l \<Rightarrow> concat l)]"
    by (simp add: by_tag_def patient_demographics_def
        filter_nodes_map_index_none order_item_def report_item_def)
  from s d show ?thesis
    by (simp add: by_tag_def overview_panel_def)
qed

lemma by_tag_h3:
  "map text_content (by_tag ''h3'' (overview_panel E p os rs))
   = [''Birth Date'', ''Address'', ''Contact'', ''Demographics'',
      ''Orders ('' @ string_of_nat (length os) @ '')'',
      ''Reports ('' @ string_of_nat (length rs) @ '')'']"
proof -
  have s: "by_tag ''h3'' (patient_sidebar p) =
     [Element ''h3'' [] [Text ''Birth Date''], Element ''h3'' [] [Text ''Address''],
      Element ''h3'' [] [Text ''Contact'']]"
    by (simp add: by_tag_def patient_sidebar_def
        filter_nodes_opt_map_index_none address_entry_def contact_entry_def)
  have d: "map text_content (by_tag ''h3'' (patient_demographics E p os rs)) =
     [''Demographics'',
      ''Orders ('' @ string_of_nat (length os) @ '')'',
      ''Reports ('' @ string_of_nat (length rs) @ '')'']"
    by (simp add: by_tag_def patient_demographics_def
        filter_nodes_map_index_none order_item_def report_item_def)
  from s d show ?thesis
    by (simp add: by_tag_def overview_panel_def)
qed

lemma by_class_demographics:
  "by_class ''patient-demographics'' (overview_panel E p os rs)
   = [patient_demographics E p os rs]"
proof -
  have s: "by_class ''patient-demographics'' (patient_sidebar p) = []"
    by (simp add: by_class_def patient_sidebar_def
        filter_nodes_opt_map_index_none address_entry_def contact_entry_def)
  have d: "by_class ''patient-demographics'' (patient_demographics E p os rs)
           = [patient_demographics E p os rs]"
    by (simp add: by_class_def patient_demographics_def
        filter_nodes_map_index_none order_item_def report_item_def)
  from s d show ?thesis
    by (simp add: by_class_def overview_panel_def)
qed

lemma order_links:
  "map (\<lambda>li. map (\<lambda>a. prop_of a ''href'') (by_tag ''a'' li)) (map_index (order_item E) os)
   = map (\<lambda>sr. [Some (PString (''/ServiceRequest/'' @ template (sr_id sr)))]) os"
  by (simp add: map_map_index by_tag_def order_item_def map_index_const)

lemma order_tags:
  "map tag_of (map_index (order_item E) os) = replicate (length os) (Some ''li'')"
  by (simp add: map_map_index order_item_def map_index_const map_replicate_const)

subsection \<open>The parts of the query text\<close>

lemma query_split:
  "query i =
     ''{
      patient: '' @
     (''Patient(id: \"'' @ template i @ ''\")'') @
     '' {
        resourceType,
        id,
        meta { lastUpdated },
        birthDate,
        name {
          given,
          family
        },
        telecom {
          system,
          value
        },
        address {
          line,
          city,
          state
        }
        photo {
          contentType,
          url,
          title
        }
      },
      orders: '' @
     (''ServiceRequestList(subject: \"Patient/'' @ template i @ ''\")'') @
     '' {
        resourceType,
        id,
        meta { lastUpdated },
        category {
          text
        },
        code {
          text
        }
      },
      reports: '' @
     (''DiagnosticReportList(subject: \"Patient/'' @ template i @ ''\")'') @
     '' {
        resourceType,
        id,
        meta { lastUpdated },
        code {
          text
        }
      }
    }''"
  by (simp add: query_def)

subsection \<open>Runs\<close>

lemma run_append:
  "run E w (xs @ ys) = (case run E w xs of None \<Rightarrow> None | Some w' \<Rightarrow> run E w' ys)"
  by (induction xs arbitrary: w) (auto split: option.splits)

text \<open>Only a fulfilled query writes the response cell.\<close>

lemma step_keeps_response:
  assumes "step E w ev = Some w'" and "\<forall>k r. ev \<noteq> Fulfil k r"
  shows "response w' = response w"
  using assms by (cases ev) (auto simp: step_def run_effect_def onClick_def Let_def split: if_splits)

lemma run_keeps_response:
  "run E w evs = Some w' \<Longrightarrow> \<forall>k r. Fulfil k r \<notin> set evs \<Longrightarrow> response w' = response w"
proof (induction evs arbitrary: w)
  case Nil
  then show ?case by simp
next
  case (Cons ev evs)
  from Cons.prems(1) obtain w1
    where s: "step E w ev = Some w1" and r: "run E w1 evs = Some w'"
    by (auto split: option.splits)
  from Cons.prems(2) have "\<forall>k r. ev \<noteq> Fulfil k r" by auto
  with s have "response w1 = response w" by (rule step_keeps_response)
  moreover from Cons.prems(2) have "\<forall>k r. Fulfil k r \<notin> set evs" by auto
  ultimately show ?case using Cons.IH r by simp
qed

lemma sample_world_reached:
  "run sample_env (mount (Some ''123'')) [Fulfil 0 sample_response] = Some sample_world"
  by (simp add: step_def mount_def run_effect_def remove_nth_def sample_world_def)

section \<open>The claims\<close>

text \<open>
  C1. The button's click handler awaits the handler function itself, never a call of it:
  it sends no create call, and what it passes to the router is the fixed path
  \<^verbatim>\<open>/DiagnosticReport/undefined\<close>, the same whatever the platform would answer to a
  create call, so it is not built from a created record's identifier.
\<close>

theorem onClick_target_not_from_created_record:
  "calls (onClick E w) =
     calls w @ [ConsoleLog ''Created Report'' None, Navigate ''/DiagnosticReport/undefined'']
   \<and> onClick E' w = onClick E w
   \<and> (\<forall>rd. CreateResource rd \<notin> set (calls (onClick E w)) - set (calls w))"
  by (auto simp: onClick_def await_def value_id_def template_def)

theorem onClick_target_not_from_created_record_witness:
  "calls (onClick sample_env sample_world) =
     [Graphql (query (Some ''123'')), ConsoleLog ''Created Report'' None,
      Navigate ''/DiagnosticReport/undefined'']"
  using onClick_target_not_from_created_record [of sample_env sample_world]
  by (simp add: sample_world_def)

text \<open>
  C2. With a patient on screen, \<^verbatim>\<open>handleAddDiagnosticReport\<close> adds exactly one call to
  the log, a create call, whose payload has resource type \<^verbatim>\<open>DiagnosticReport\<close>, the
  reference to the displayed patient as subject, status \<^verbatim>\<open>final\<close> and the single coding
  \<^verbatim>\<open>Progress note\<close>; it returns the platform's answer to that payload.
\<close>

theorem handleAddDiagnosticReport_one_create:
  assumes "response w = Some r"
  shows "\<exists>rd. handleAddDiagnosticReport E w =
            Some (createResource E rd, w\<lparr>calls := calls w @ [CreateResource rd]\<rparr>)
          \<and> dr_resourceType rd = ''DiagnosticReport''
          \<and> dr_subject rd = Some (createReference E (patient (data r)))
          \<and> dr_status rd = Some ''final''
          \<and> dr_code rd =
              Some \<lparr>cc_coding = Some [\<lparr>coding_code = Some ''Progress note''\<rparr>],
                    cc_text = None\<rparr>"
  using assms
  by (intro exI [of _ "reportData E (patient (data r))"])
     (simp add: handleAddDiagnosticReport_def reportData_def Let_def)

theorem handleAddDiagnosticReport_one_create_witness:
  "response sample_world = Some sample_response
   \<and> (\<exists>rd. handleAddDiagnosticReport sample_env sample_world =
              Some (Fulfilled (rd\<lparr>dr_id := Some ''r-1''\<rparr>),
                    sample_world\<lparr>calls := [Graphql (query (Some ''123'')), CreateResource rd]\<rparr>)
            \<and> dr_resourceType rd = ''DiagnosticReport''
            \<and> dr_subject rd =
                Some \<lparr>ref_reference = Some ''Patient/123'', ref_display = None\<rparr>
            \<and> dr_status rd = Some ''final'')"
proof -
  have h: "response sample_world = Some sample_response"
    by (simp add: sample_world_def)
  from handleAddDiagnosticReport_one_create [OF h, of sample_env]
  obtain rd where
    "handleAddDiagnosticReport sample_env sample_world =
       Some (createResource sample_env rd,
             sample_world\<lparr>calls := calls sample_world @ [CreateResource rd]\<rparr>)"
    "dr_resourceType rd = ''DiagnosticReport''"
    "dr_subject rd = Some (createReference sample_env (patient (data sample_response)))"
    "dr_status rd = Some ''final''"
    by blast
  then have
    "handleAddDiagnosticReport sample_env sample_world =
       Some (Fulfilled (rd\<lparr>dr_id := Some ''r-1''\<rparr>),
             sample_world\<lparr>calls := [Graphql (query (Some ''123'')), CreateResource rd]\<rparr>)
     \<and> dr_resourceType rd = ''DiagnosticReport''
     \<and> dr_subject rd = Some \<lparr>ref_reference = Some ''Patient/123'', ref_display = None\<rparr>
     \<and> dr_status rd = Some ''final''"
    by (simp add: sample_env_def sample_world_def sample_response_def jane_def template_def)
  with h show ?thesis by blast
qed

text \<open>
  C3. For every patient identifier \<open>s\<close>: after mounting, with no answer yet, the page
  renders the loading indicator alone and has sent exactly one call, the composed query,
  whose text holds \<open>s\<close> as the \<^verbatim>\<open>id\<close> argument of \<^verbatim>\<open>Patient\<close> and, after it, in the
  subject filter \<^verbatim>\<open>Patient/s\<close> of the orders list and of the reports list. A re-render
  with the same identifier sends nothing more, and any world without a response renders
  the loading indicator alone.
\<close>

theorem loading_issues_one_query:
  "render E (mount (Some s)) = Loader
   \<and> calls (mount (Some s)) = [Graphql (query (Some s))]
   \<and> pending (mount (Some s)) = [query (Some s)]
   \<and> (\<exists>a b c d. query (Some s) =
          a @ (''Patient(id: \"'' @ s @ ''\")'')
          @ b @ (''ServiceRequestList(subject: \"Patient/'' @ s @ ''\")'')
          @ c @ (''DiagnosticReportList(subject: \"Patient/'' @ s @ ''\")'') @ d)
   \<and> step E (mount (Some s)) (RouteChange (Some s)) = Some (mount (Some s))
   \<and> (response w = None \<longrightarrow> render E w = Loader)"
proof -
  have "\<exists>a b c d. query (Some s) =
          a @ (''Patient(id: \"'' @ s @ ''\")'')
          @ b @ (''ServiceRequestList(subject: \"Patient/'' @ s @ ''\")'')
          @ c @ (''DiagnosticReportList(subject: \"Patient/'' @ s @ ''\")'') @ d"
    apply (subst query_split)
    apply (simp only: template_def option.case)
    apply (intro exI)
    apply (rule refl)
    done
  then show ?thesis
    by (simp add: render_def mount_def run_effect_def step_def)
qed

theorem loading_issues_one_query_witness:
  "response (mount (Some ''123'')) = None
   \<and> render sample_env (mount (Some ''123'')) = Loader
   \<and> calls (mount (Some ''123'')) = [Graphql (query (Some ''123''))]"
proof -
  have h: "response (mount (Some ''123'')) = None"
    by (simp add: mount_def run_effect_def)
  from loading_issues_one_query [of sample_env "''123''" "mount (Some ''123'')"] h
  show ?thesis by blast
qed

text \<open>
  C4. A rejected query promise changes nothing the page can see: the response cell, the
  tab, the log of calls and the rendered tree stay as they were. From mounting on, as long
  as no query is fulfilled, whatever else happens, the response cell stays empty and the
  page renders the loading indicator.
\<close>

theorem rejection_never_observed:
  "(step E w (Reject k) = Some w' \<longrightarrow>
      response w' = response w \<and> tab w' = tab w \<and> calls w' = calls w
      \<and> render E w' = render E w)
   \<and> (run E (mount i) evs = Some w'' \<and> (\<forall>k r. Fulfil k r \<notin> set evs) \<longrightarrow>
      response w'' = None \<and> render E w'' = Loader)"
proof -
  have a: "step E w (Reject k) = Some w' \<longrightarrow>
      response w' = response w \<and> tab w' = tab w \<and> calls w' = calls w
      \<and> render E w' = render E w"
    by (auto simp: step_def render_def split: if_splits option.splits)
  have "response (mount i) = None" by (simp add: mount_def run_effect_def)
  then have b: "run E (mount i) evs = Some w'' \<and> (\<forall>k r. Fulfil k r \<notin> set evs) \<longrightarrow>
      response w'' = None \<and> render E w'' = Loader"
    using run_keeps_response [of E "mount i" evs w''] by (auto simp: render_def)
  from a b show ?thesis by blast
qed

theorem rejection_never_observed_witness:
  "\<exists>w'. step sample_env (mount (Some ''123'')) (Reject 0) = Some w'
     \<and> run sample_env (mount (Some ''123'')) [Reject 0] = Some w'
     \<and> (\<forall>k r. Fulfil k r \<notin> set [Reject 0])
     \<and> pending w' = []
     \<and> response w' = None
     \<and> calls w' = [Graphql (query (Some ''123''))]
     \<and> render sample_env w' = Loader"
proof -
  let ?w = "mount (Some ''123'')" and ?w' = "(mount (Some ''123''))\<lparr>pending := []\<rparr>"
  have s: "step sample_env ?w (Reject 0) = Some ?w'"
    by (simp add: step_def mount_def run_effect_def remove_nth_def)
  then have r: "run sample_env ?w [Reject 0] = Some ?w'" by simp
  have n: "\<forall>k r. Fulfil k r \<notin> set [Reject 0]" by simp
  have c: "calls ?w = [Graphql (query (Some ''123''))]"
    by (simp add: mount_def run_effect_def)
  note T = rejection_never_observed
             [of sample_env ?w 0 ?w' "Some ''123''" "[Reject 0]" ?w']
  from T [THEN conjunct1, rule_format, OF s] c
  have 1: "calls ?w' = [Graphql (query (Some ''123''))]" by simp
  from T [THEN conjunct2, rule_format, OF conjI [OF r n]]
  have 2: "response ?w' = None \<and> render sample_env ?w' = Loader" .
  show ?thesis
  proof (intro exI conjI)
    show "step sample_env ?w (Reject 0) = Some ?w'" by (rule s)
    show "run sample_env ?w [Reject 0] = Some ?w'" by (rule r)
    show "\<forall>k r. Fulfil k r \<notin> set [Reject 0]" by (rule n)
    show "pending ?w' = []" by simp
    show "response ?w' = None" using 2 by (rule conjunct1)
    show "calls ?w' = [Graphql (query (Some ''123''))]" by (rule 1)
    show "render sample_env ?w' = Loader" using 2 by (rule conjunct2)
  qed
qed

text \<open>
  C5. With a response present, the page has exactly one overview panel; in it there is one
  \<^verbatim>\<open>AddressDisplay\<close> for each element of the patient's address list and one
  \<^verbatim>\<open>ContactPointDisplay\<close> for each element of the telecom list, in order (none when the
  list is absent). Of the five table cells, the second reads \<^verbatim>\<open>First: \<close> followed by
  the first given name of the first name entry, and the fourth reads \<^verbatim>\<open>Last: \<close>
  followed by the family name of the first name entry, each on its own: a family name is
  shown whether or not there is a given name, and the other way round. Where the name
  list, its first entry's given names or its family name are absent or empty, nothing
  follows the label.
\<close>

theorem overview_entries_and_names:
  assumes "response w = Some r"
  shows "\<exists>ov. panels ''overview'' (render E w) = [ov]
    \<and> by_tag ''AddressDisplay'' ov =
        map (\<lambda>a. Element ''AddressDisplay'' [(''value'', PAddress a)] [])
          (case p_address (patient (data r)) of None \<Rightarrow> [] | Some l \<Rightarrow> l)
    \<and> by_tag ''ContactPointDisplay'' ov =
        map (\<lambda>c. Element ''ContactPointDisplay'' [(''value'', PContactPoint c)] [])
          (case p_telecom (patient (data r)) of None \<Rightarrow> [] | Some l \<Rightarrow> l)
    \<and> map text_content (by_tag ''td'' ov) =
        [''Prefix: '' @
           (case name0_prefix (patient (data r)) of None \<Rightarrow> '''' | Some l \<Rightarrow> concat l),
         ''First: '' @
           (case name0_given (patient (data r)) 0 of None \<Rightarrow> '''' | Some g \<Rightarrow> g),
         ''Middle: '' @
           (case name0_given (patient (data r)) 1 of None \<Rightarrow> '''' | Some g \<Rightarrow> g),
         ''Last: '' @
           (case name0_family (patient (data r)) of None \<Rightarrow> '''' | Some f \<Rightarrow> f),
         ''Suffix: '' @
           (case name0_suffix (patient (data r)) of None \<Rightarrow> '''' | Some l \<Rightarrow> concat l)]
    \<and> (p_name (patient (data r)) = Some (n # ns) \<and> hn_given n = Some (g # gs) \<longrightarrow>
        name0_given (patient (data r)) 0 = Some g
        \<and> map text_content (by_tag ''td'' ov) ! 1 = ''First: '' @ g)
    \<and> (p_name (patient (data r)) = Some (n # ns) \<and> hn_family n = Some f \<longrightarrow>
        name0_family (patient (data r)) = Some f
        \<and> map text_content (by_tag ''td'' ov) ! 3 = ''Last: '' @ f)
    \<and> (p_name (patient (data r)) = Some (n # ns) \<longrightarrow>
        name0_family (patient (data r)) = hn_family n
        \<and> name0_given (patient (data r)) 0 =
            (case hn_given n of None \<Rightarrow> None | Some [] \<Rightarrow> None | Some (x # xs) \<Rightarrow> Some x))
    \<and> map text_content (by_tag ''td'' ov) ! 1 =
        ''First: '' @
          (case p_name (patient (data r)) of
             None \<Rightarrow> ''''
           | Some [] \<Rightarrow> ''''
           | Some (m # ms) \<Rightarrow>
               (case hn_given m of None \<Rightarrow> '''' | Some [] \<Rightarrow> '''' | Some (x # xs) \<Rightarrow> x))
    \<and> map text_content (by_tag ''td'' ov) ! 3 =
        ''Last: '' @
          (case p_name (patient (data r)) of
             None \<Rightarrow> ''''
           | Some [] \<Rightarrow> ''''
           | Some (m # ms) \<Rightarrow> (case hn_family m of None \<Rightarrow> '''' | Some x \<Rightarrow> x))"
proof -
  let ?p = "patient (data r)" and ?os = "orders (data r)" and ?rs = "reports (data r)"
  let ?ov = "overview_panel E ?p ?os ?rs"
  let ?td = "map text_content (by_tag ''td'' ?ov)"
  have td1: "?td ! 1 = ''First: '' @ (case name0_given ?p 0 of None \<Rightarrow> '''' | Some g \<Rightarrow> g)"
    and td3: "?td ! 3 = ''Last: '' @ (case name0_family ?p of None \<Rightarrow> '''' | Some f \<Rightarrow> f)"
    by (simp_all add: by_tag_td)
  show ?thesis
  proof (intro exI conjI)
    show "panels ''overview'' (render E w) = [?ov]"
      using assms by (simp add: render_def panels_overview)
    show "by_tag ''AddressDisplay'' ?ov =
        map (\<lambda>a. Element ''AddressDisplay'' [(''value'', PAddress a)] [])
          (case p_address ?p of None \<Rightarrow> [] | Some l \<Rightarrow> l)"
      by (rule by_tag_AddressDisplay)
    show "by_tag ''ContactPointDisplay'' ?ov =
        map (\<lambda>c. Element ''ContactPointDisplay'' [(''value'', PContactPoint c)] [])
          (case p_telecom ?p of None \<Rightarrow> [] | Some l \<Rightarrow> l)"
      by (rule by_tag_ContactPointDisplay)
    show "?td =
        [''Prefix: '' @ (case name0_prefix ?p of None \<Rightarrow> '''' | Some l \<Rightarrow> concat l),
         ''First: '' @ (case name0_given ?p 0 of None \<Rightarrow> '''' | Some g \<Rightarrow> g),
         ''Middle: '' @ (case name0_given ?p 1 of None \<Rightarrow> '''' | Some g \<Rightarrow> g),
         ''Last: '' @ (case name0_family ?p of None \<Rightarrow> '''' | Some f \<Rightarrow> f),
         ''Suffix: '' @ (case name0_suffix ?p of None \<Rightarrow> '''' | Some l \<Rightarrow> concat l)]"
      by (rule by_tag_td)
    show "p_name ?p = Some (n # ns) \<and> hn_given n = Some (g # gs) \<longrightarrow>
        name0_given ?p 0 = Some g \<and> ?td ! 1 = ''First: '' @ g"
      unfolding td1 by (simp add: name0_given_def name0_def nth_opt_def)
    show "p_name ?p = Some (n # ns) \<and> hn_family n = Some f \<longrightarrow>
        name0_family ?p = Some f \<and> ?td ! 3 = ''Last: '' @ f"
      unfolding td3 by (simp add: name0_family_def name0_def nth_opt_def)
    show "p_name ?p = Some (n # ns) \<longrightarrow>
        name0_family ?p = hn_family n
        \<and> name0_given ?p 0 =
            (case hn_given n of None \<Rightarrow> None | Some [] \<Rightarrow> None | Some (x # xs) \<Rightarrow> Some x)"
      by (simp add: name0_family_def name0_given_def name0_def nth_opt_def
          split: option.splits list.splits)
    show "?td ! 1 =
        ''First: '' @
          (case p_name ?p of
             None \<Rightarrow> ''''
           | Some [] \<Rightarrow> ''''
           | Some (m # ms) \<Rightarrow>
               (case hn_given m of None \<Rightarrow> '''' | Some [] \<Rightarrow> '''' | Some (x # xs) \<Rightarrow> x))"
      unfolding td1
      by (simp add: name0_given_def name0_def nth_opt_def split: option.splits list.splits)
    show "?td ! 3 =
        ''Last: '' @
          (case p_name ?p of
             None \<Rightarrow> ''''
           | Some [] \<Rightarrow> ''''
           | Some (m # ms) \<Rightarrow> (case hn_family m of None \<Rightarrow> '''' | Some x \<Rightarrow> x))"
      unfolding td3
      by (simp add: name0_family_def name0_def nth_opt_def split: option.splits list.splits)
  qed
qed

text \<open>
  On Jane A. Doe, on a patient with a family name only, on one with a given name only and
  on one with no name.
\<close>

theorem overview_entries_and_names_witness:
  "response sample_world = Some sample_response
   \<and> p_name jane = Some [jane_name]
   \<and> hn_given jane_name = Some [''Jane'', ''A.'']
   \<and> hn_family jane_name = Some ''Doe''
   \<and> (\<exists>ov. panels ''overview'' (render sample_env sample_world) = [ov]
         \<and> length (by_tag ''AddressDisplay'' ov) = 2
         \<and> length (by_tag ''ContactPointDisplay'' ov) = 1
         \<and> map text_content (by_tag ''td'' ov) =
             [''Prefix: '', ''First: Jane'', ''Middle: A.'', ''Last: Doe'', ''Suffix: ''])
   \<and> (\<exists>ov. panels ''overview''
               (render sample_env (sample_world\<lparr>response := Some family_only_response\<rparr>)) = [ov]
         \<and> map text_content (by_tag ''td'' ov) ! 1 = ''First: ''
         \<and> map text_content (by_tag ''td'' ov) ! 3 = ''Last: Doe'')
   \<and> (\<exists>ov. panels ''overview''
               (render sample_env (sample_world\<lparr>response := Some given_only_response\<rparr>)) = [ov]
         \<and> map text_content (by_tag ''td'' ov) ! 1 = ''First: Jane''
         \<and> map text_content (by_tag ''td'' ov) ! 3 = ''Last: '')
   \<and> (\<exists>ov. panels ''overview''
               (render sample_env (sample_world\<lparr>response := Some other_response\<rparr>)) = [ov]
         \<and> map text_content (by_tag ''td'' ov) ! 1 = ''First: ''
         \<and> map text_content (by_tag ''td'' ov) ! 3 = ''Last: '')"
proof -
  have h: "response sample_world = Some sample_response"
    by (simp add: sample_world_def)
  have p: "patient (data sample_response) = jane"
    by (simp add: sample_response_def)
  have n1: "p_name jane = Some [jane_name]"
    and n2: "hn_given jane_name = Some [''Jane'', ''A.'']"
    and n3: "hn_family jane_name = Some ''Doe''"
    by (simp_all add: jane_def jane_name_def)
  have a: "\<exists>ov. panels ''overview'' (render sample_env sample_world) = [ov]
         \<and> length (by_tag ''AddressDisplay'' ov) = 2
         \<and> length (by_tag ''ContactPointDisplay'' ov) = 1
         \<and> map text_content (by_tag ''td'' ov) =
             [''Prefix: '', ''First: Jane'', ''Middle: A.'', ''Last: Doe'', ''Suffix: '']"
    using overview_entries_and_names
            [OF h, of sample_env jane_name "[]" "''Jane''" "[''A.'']" "''Doe''"]
    unfolding p
    apply (elim exE conjE)
    apply (intro conjI exI)
       apply (assumption
           | simp add: jane_def jane_name_def name0_given_def name0_prefix_def
               name0_suffix_def name0_family_def name0_def nth_opt_def)+
    done
  let ?fam = "\<lparr>hn_prefix = None, hn_given = None, hn_family = Some ''Doe'', hn_suffix = None\<rparr>"
  let ?giv = "\<lparr>hn_prefix = None, hn_given = Some [''Jane''], hn_family = None,
               hn_suffix = None\<rparr>"
  have hb: "response (sample_world\<lparr>response := Some family_only_response\<rparr>)
            = Some family_only_response"
    and hc: "response (sample_world\<lparr>response := Some given_only_response\<rparr>)
            = Some given_only_response"
    and hd: "response (sample_world\<lparr>response := Some other_response\<rparr>)
            = Some other_response"
    by simp_all
  have b: "\<exists>ov. panels ''overview''
               (render sample_env (sample_world\<lparr>response := Some family_only_response\<rparr>)) = [ov]
         \<and> map text_content (by_tag ''td'' ov) ! 1 = ''First: ''
         \<and> map text_content (by_tag ''td'' ov) ! 3 = ''Last: Doe''"
    using overview_entries_and_names [OF hb, of sample_env ?fam "[]" "''Jane''" "[]" "''Doe''"]
    apply (elim exE conjE)
    apply (intro conjI exI)
      apply (assumption | simp add: family_only_response_def jane_def)+
    done
  have c: "\<exists>ov. panels ''overview''
               (render sample_env (sample_world\<lparr>response := Some given_only_response\<rparr>)) = [ov]
         \<and> map text_content (by_tag ''td'' ov) ! 1 = ''First: Jane''
         \<and> map text_content (by_tag ''td'' ov) ! 3 = ''Last: ''"
    using overview_entries_and_names [OF hc, of sample_env ?giv "[]" "''Jane''" "[]" "''Doe''"]
    apply (elim exE conjE)
    apply (intro conjI exI)
      apply (assumption | simp add: given_only_response_def jane_def)+
    done
  have d: "\<exists>ov. panels ''overview''
               (render sample_env (sample_world\<lparr>response := Some other_response\<rparr>)) = [ov]
         \<and> map text_content (by_tag ''td'' ov) ! 1 = ''First: ''
         \<and> map text_content (by_tag ''td'' ov) ! 3 = ''Last: ''"
    using overview_entries_and_names [OF hd, of sample_env ?fam "[]" "''Jane''" "[]" "''Doe''"]
    apply (elim exE conjE)
    apply (intro conjI exI)
      apply (assumption | simp add: other_response_def jane_def)+
    done
  from h n1 n2 n3 a b c d show ?thesis
    by (intro conjI) assumption+
qed

text \<open>
  C6. With a response holding \<open>n\<close> orders and \<open>m\<close> reports, the headers of the overview
  panel read, after the four fixed ones, \<^verbatim>\<open>Orders (n)\<close> and \<^verbatim>\<open>Reports (m)\<close>; and in the
  demographics block the \<^verbatim>\<open>Orders (n)\<close> header is followed at once by a list of exactly
  \<open>n\<close> items, every one an \<^verbatim>\<open>li\<close> holding one link, to \<^verbatim>\<open>/ServiceRequest/\<close> and the
  identifier of the order at that position.
\<close>

theorem overview_counts_and_order_items:
  assumes "response w = Some r"
  shows "\<exists>ov demo pre hs lis post.
      panels ''overview'' (render E w) = [ov]
    \<and> map text_content (by_tag ''h3'' ov) =
        [''Birth Date'', ''Address'', ''Contact'', ''Demographics'',
         ''Orders ('' @ string_of_nat (length (orders (data r))) @ '')'',
         ''Reports ('' @ string_of_nat (length (reports (data r))) @ '')'']
    \<and> by_class ''patient-demographics'' ov = [demo]
    \<and> children demo = pre @ [Element ''h3'' [] hs, Element ''ul'' [] lis] @ post
    \<and> concat (map text_content hs) =
        ''Orders ('' @ string_of_nat (length (orders (data r))) @ '')''
    \<and> length lis = length (orders (data r))
    \<and> map tag_of lis = replicate (length (orders (data r))) (Some ''li'')
    \<and> map (\<lambda>li. map (\<lambda>a. prop_of a ''href'') (by_tag ''a'' li)) lis =
        map (\<lambda>sr. [Some (PString (''/ServiceRequest/'' @ template (sr_id sr)))])
          (orders (data r))"
proof -
  let ?p = "patient (data r)" and ?os = "orders (data r)" and ?rs = "reports (data r)"
  let ?ov = "overview_panel E ?p ?os ?rs"
  let ?demo = "patient_demographics E ?p ?os ?rs"
  let ?lis = "map_index (order_item E) ?os"
  have 1: "panels ''overview'' (render E w) = [?ov]"
    using assms by (simp add: render_def panels_overview)
  have 2: "children ?demo =
      take 3 (children ?demo)
      @ [Element ''h3'' [] [Text ''Orders ('', Text (string_of_nat (length ?os)), Text '')''],
         Element ''ul'' [] ?lis]
      @ drop 5 (children ?demo)"
    by (simp add: patient_demographics_def)
  have 3: "concat (map text_content
             [Text ''Orders ('', Text (string_of_nat (length ?os)), Text '')''])
           = ''Orders ('' @ string_of_nat (length ?os) @ '')''"
    by simp
  have 4: "length ?lis = length ?os" by simp
  show ?thesis
  proof (intro exI conjI)
    show "panels ''overview'' (render E w) = [?ov]" by (rule 1)
    show "map text_content (by_tag ''h3'' ?ov) =
        [''Birth Date'', ''Address'', ''Contact'', ''Demographics'',
         ''Orders ('' @ string_of_nat (length ?os) @ '')'',
         ''Reports ('' @ string_of_nat (length ?rs) @ '')'']"
      by (rule by_tag_h3)
    show "by_class ''patient-demographics'' ?ov = [?demo]" by (rule by_class_demographics)
    show "children ?demo =
      take 3 (children ?demo)
      @ [Element ''h3'' [] [Text ''Orders ('', Text (string_of_nat (length ?os)), Text '')''],
         Element ''ul'' [] ?lis]
      @ drop 5 (children ?demo)" by (rule 2)
    show "concat (map text_content
             [Text ''Orders ('', Text (string_of_nat (length ?os)), Text '')''])
           = ''Orders ('' @ string_of_nat (length ?os) @ '')''" by (rule 3)
    show "length ?lis = length ?os" by (rule 4)
    show "map tag_of ?lis = replicate (length ?os) (Some ''li'')" by (rule order_tags)
    show "map (\<lambda>li. map (\<lambda>a. prop_of a ''href'') (by_tag ''a'' li)) ?lis =
        map (\<lambda>sr. [Some (PString (''/ServiceRequest/'' @ template (sr_id sr)))]) ?os"
      by (rule order_links)
  qed
qed

theorem overview_counts_and_order_items_witness:
  "response sample_world = Some sample_response
   \<and> (\<exists>ov demo pre hs lis post.
        panels ''overview'' (render sample_env sample_world) = [ov]
      \<and> map text_content (by_tag ''h3'' ov) =
          [''Birth Date'', ''Address'', ''Contact'', ''Demographics'',
           ''Orders (3)'', ''Reports (0)'']
      \<and> by_class ''patient-demographics'' ov = [demo]
      \<and> children demo = pre @ [Element ''h3'' [] hs, Element ''ul'' [] lis] @ post
      \<and> concat (map text_content hs) = ''Orders (3)''
      \<and> length lis = 3
      \<and> map (\<lambda>li. map (\<lambda>a. prop_of a ''href'') (by_tag ''a'' li)) lis =
          [[Some (PString ''/ServiceRequest/o1'')], [Some (PString ''/ServiceRequest/o2'')],
           [Some (PString ''/ServiceRequest/o3'')]])"
proof -
  have h: "response sample_world = Some sample_response"
    by (simp add: sample_world_def)
  have os: "orders (data sample_response) =
              [sample_order ''o1'', sample_order ''o2'', sample_order ''o3'']"
    and rs: "reports (data sample_response) = []"
    by (simp_all add: sample_response_def)
  have n3: "string_of_nat (Suc (Suc (Suc 0))) = ''3''" and n0: "string_of_nat 0 = ''0''"
    by (simp_all add: string_of_nat.simps digit_char_def)
  show ?thesis
    using overview_counts_and_order_items [OF h, of sample_env] h
    apply (elim exE conjE)
    apply (intro conjI exI)
            apply (assumption | simp add: os rs n3 n0 sample_order_def template_def)+
    done
qed

text \<open>
  C7. Any pending query promise that fulfils has its answer stored and shown, whichever
  request it answers and whatever the route parameter is by then: nothing compares the
  answer with the current identifier. So after any run the response cell holds the answer
  of the fulfilment that came last.
\<close>

theorem last_arrival_wins:
  "(k < length (pending w) \<longrightarrow>
      (\<exists>w'. step E w (Fulfil k r) = Some w' \<and> response w' = Some r
           \<and> route_id w' = route_id w \<and> render E w' = page E (tab w) r))
   \<and> (run E w (evs @ Fulfil k r # rest) = Some w'' \<and> (\<forall>j q. Fulfil j q \<notin> set rest) \<longrightarrow>
      response w'' = Some r)"
proof -
  have a: "k < length (pending w) \<longrightarrow>
      (\<exists>w'. step E w (Fulfil k r) = Some w' \<and> response w' = Some r
           \<and> route_id w' = route_id w \<and> render E w' = page E (tab w) r)"
    by (simp add: step_def render_def)
  have b: "response w'' = Some r"
    if run: "run E w (evs @ Fulfil k r # rest) = Some w''"
      and rest: "\<forall>j q. Fulfil j q \<notin> set rest"
  proof -
    from run obtain w1 w2 where "run E w evs = Some w1"
      and s: "step E w1 (Fulfil k r) = Some w2" and r2: "run E w2 rest = Some w''"
      by (auto simp: run_append split: option.splits)
    from s have "response w2 = Some r"
      by (auto simp: step_def split: if_splits)
    with run_keeps_response [OF r2 rest] show ?thesis by simp
  qed
  from a b show ?thesis by blast
qed

text \<open>
  The race itself: the page is mounted for patient 1, the route changes to patient 2, the
  answer for 2 arrives, then the answer for 1. The page is left showing the answer for 1
  under the route of 2.
\<close>

theorem last_arrival_wins_witness:
  "\<exists>w w'. run sample_env (mount (Some ''1'')) [RouteChange (Some ''2''), Fulfil 1 sample_response]
            = Some w
     \<and> pending w = [query (Some ''1'')]
     \<and> 0 < length (pending w)
     \<and> step sample_env w (Fulfil 0 other_response) = Some w'
     \<and> (\<forall>j q. Fulfil j q \<notin> set ([]::event list))
     \<and> run sample_env (mount (Some ''1''))
          ([RouteChange (Some ''2''), Fulfil 1 sample_response] @ Fulfil 0 other_response # [])
         = Some w'
     \<and> route_id w' = Some ''2''
     \<and> response w' = Some other_response"
proof -
  let ?w = "\<lparr>route_id = Some ''2'', tab = Some ''overview'', response = Some sample_response,
             pending = [query (Some ''1'')],
             calls = [Graphql (query (Some ''1'')), Graphql (query (Some ''2''))]\<rparr>"
  have r: "run sample_env (mount (Some ''1''))
             [RouteChange (Some ''2''), Fulfil 1 sample_response] = Some ?w"
    by (simp add: step_def mount_def run_effect_def remove_nth_def)
  have p: "pending ?w = [query (Some ''1'')]" and l: "0 < length (pending ?w)"
    by simp_all
  from last_arrival_wins [of 0 ?w sample_env other_response "[]" "[]" ?w] l
  obtain w' where w': "step sample_env ?w (Fulfil 0 other_response) = Some w'"
    "response w' = Some other_response" "route_id w' = route_id ?w"
    by blast
  from r w'(1) have r': "run sample_env (mount (Some ''1''))
          ([RouteChange (Some ''2''), Fulfil 1 sample_response] @ Fulfil 0 other_response # [])
         = Some w'"
    by (simp only: run_append option.case run.simps)
  show ?thesis
  proof (intro exI conjI)
    show "run sample_env (mount (Some ''1''))
            [RouteChange (Some ''2''), Fulfil 1 sample_response] = Some ?w" by (rule r)
    show "pending ?w = [query (Some ''1'')]" by (rule p)
    show "0 < length (pending ?w)" by (rule l)
    show "step sample_env ?w (Fulfil 0 other_response) = Some w'" by (rule w'(1))
    show "\<forall>j q. Fulfil j q \<notin> set ([]::event list)" by simp
    show "run sample_env (mount (Some ''1''))
          ([RouteChange (Some ''2''), Fulfil 1 sample_response] @ Fulfil 0 other_response # [])
         = Some w'" by (rule r')
    show "route_id w' = Some ''2''" using w'(3) by simp
    show "response w' = Some other_response" by (rule w'(2))
  qed
qed

text \<open>
  C8. The tab cell starts as \<^verbatim>\<open>overview\<close>, and no event other than a tab selection
  changes it: not a route change, not a fulfilled or rejected query, not a click on the
  button; nor does \<^verbatim>\<open>handleAddDiagnosticReport\<close>.
\<close>

theorem tab_written_only_by_TabChange:
  "tab (mount i) = Some ''overview''
   \<and> (step E w ev = Some w' \<and> (\<forall>v. ev \<noteq> TabChange v) \<longrightarrow> tab w' = tab w)
   \<and> (handleAddDiagnosticReport E w = Some (res, w'') \<longrightarrow> tab w'' = tab w)"
  by (cases ev)
     (auto simp: mount_def run_effect_def step_def onClick_def handleAddDiagnosticReport_def
        Let_def split: if_splits option.splits)

theorem tab_written_only_by_TabChange_witness:
  "step sample_env (sample_world\<lparr>tab := Some ''history''\<rparr>) (RouteChange (Some ''456''))
     = Some (run_effect (sample_world\<lparr>tab := Some ''history'', route_id := Some ''456''\<rparr>))
   \<and> (\<forall>v. RouteChange (Some ''456'') \<noteq> TabChange v)
   \<and> tab (run_effect (sample_world\<lparr>tab := Some ''history'', route_id := Some ''456''\<rparr>))
       = Some ''history''
   \<and> handleAddDiagnosticReport sample_env (sample_world\<lparr>tab := Some ''history''\<rparr>)
       = Some (createResource sample_env (reportData sample_env jane),
               sample_world\<lparr>tab := Some ''history'',
                 calls := [Graphql (query (Some ''123'')),
                           CreateResource (reportData sample_env jane)]\<rparr>)
   \<and> tab (sample_world\<lparr>tab := Some ''history'',
            calls := [Graphql (query (Some ''123'')),
                      CreateResource (reportData sample_env jane)]\<rparr>) = Some ''history''"
proof -
  let ?w = "sample_world\<lparr>tab := Some ''history''\<rparr>"
  let ?w' = "run_effect (sample_world\<lparr>tab := Some ''history'', route_id := Some ''456''\<rparr>)"
  let ?w'' = "sample_world\<lparr>tab := Some ''history'',
                 calls := [Graphql (query (Some ''123'')),
                           CreateResource (reportData sample_env jane)]\<rparr>"
  have s: "step sample_env ?w (RouteChange (Some ''456'')) = Some ?w'"
    by (simp add: step_def sample_world_def)
  have n: "\<forall>v. RouteChange (Some ''456'') \<noteq> TabChange v" by simp
  have hd: "handleAddDiagnosticReport sample_env ?w
       = Some (createResource sample_env (reportData sample_env jane), ?w'')"
    by (simp add: handleAddDiagnosticReport_def Let_def sample_world_def sample_response_def)
  from tab_written_only_by_TabChange
         [of "Some ''123''" sample_env ?w "RouteChange (Some ''456'')" ?w'
             "createResource sample_env (reportData sample_env jane)" ?w''] s n hd
  have "tab ?w' = tab ?w \<and> tab ?w'' = tab ?w" by blast
  then have "tab ?w' = Some ''history'' \<and> tab ?w'' = Some ''history''" by simp
  with s n hd show ?thesis by blast
qed

text \<open>
  C9. \<^verbatim>\<open>formatDate\<close> returns the empty string for \<^verbatim>\<open>undefined\<close> and for the empty
  string, and for any other string the locale date string of the date parsed from it
  (the text \<^verbatim>\<open>Invalid Date\<close> when it does not parse); it has no failing branch.
  So a patient, an order or a report without \<^verbatim>\<open>lastUpdated\<close> renders with an empty
  date: \<^verbatim>\<open>Created Date: \<close> with nothing after it, and \<^verbatim>\<open> ()\<close> after the code text of
  an item.
\<close>

theorem formatDate_empty_or_locale:
  "formatDate E None = '''' \<and> formatDate E (Some '''') = ''''
   \<and> (s \<noteq> '''' \<longrightarrow> formatDate E (Some s) = toLocaleDateString E (new_Date E s))
   \<and> (date_parse E s = None \<and> s \<noteq> '''' \<longrightarrow> formatDate E (Some s) = ''Invalid Date'')
   \<and> (meta_lastUpdated pm = None \<longrightarrow>
        Element ''div'' [] [Text ''Created Date: '', Text ''''] \<in>
          set (children (patient_demographics E (p\<lparr>p_meta := pm\<rparr>) os rs)))
   \<and> (meta_lastUpdated (sr_meta sr) = None \<longrightarrow>
        text_content (order_item E sr i) =
          (case code_text (sr_code sr) of None \<Rightarrow> '''' | Some t \<Rightarrow> t) @ '' ()'')
   \<and> (meta_lastUpdated (dr_meta dr) = None \<longrightarrow>
        text_content (report_item E dr i) =
          (case code_text (dr_code dr) of None \<Rightarrow> '''' | Some t \<Rightarrow> t) @ '' ()'')"
  by (simp add: formatDate_def patient_demographics_def order_item_def report_item_def
      new_Date_def toLocaleDateString_def)

theorem formatDate_empty_or_locale_witness:
  "''2023-01-02T00:00:00Z'' \<noteq> ''''
   \<and> formatDate sample_env (Some ''2023-01-02T00:00:00Z'') = ''1/2/2023''
   \<and> date_parse sample_env ''soon'' = None \<and> ''soon'' \<noteq> ''''
   \<and> formatDate sample_env (Some ''soon'') = ''Invalid Date''
   \<and> meta_lastUpdated (Some \<lparr>lastUpdated = None\<rparr>) = None
   \<and> meta_lastUpdated (sr_meta (sample_order ''o1'')) = None
   \<and> text_content (order_item sample_env (sample_order ''o1'') 0) = ''CBC ()''
   \<and> meta_lastUpdated (dr_meta sample_report) = None
   \<and> text_content (report_item sample_env sample_report 0) = ''Note ()''"
proof -
  have a: "''2023-01-02T00:00:00Z'' \<noteq> ''''" by simp
  have b: "date_parse sample_env ''soon'' = None \<and> ''soon'' \<noteq> ''''"
    by (simp add: sample_env_def)
  have c: "meta_lastUpdated (Some \<lparr>lastUpdated = None\<rparr>) = None"
    "meta_lastUpdated (sr_meta (sample_order ''o1'')) = None"
    "meta_lastUpdated (dr_meta sample_report) = None"
    by (simp_all add: meta_lastUpdated_def sample_order_def sample_report_def)
  have d: "toLocaleDateString sample_env (new_Date sample_env ''2023-01-02T00:00:00Z'')
           = ''1/2/2023''"
    by (simp add: toLocaleDateString_def new_Date_def sample_env_def)
  have e: "code_text (sr_code (sample_order ''o1'')) = Some ''CBC''"
    "code_text (dr_code sample_report) = Some ''Note''"
    by (simp_all add: code_text_def sample_order_def sample_report_def)
  from formatDate_empty_or_locale
         [of sample_env "''2023-01-02T00:00:00Z''" "Some \<lparr>lastUpdated = None\<rparr>" jane "[]" "[]"
             "sample_order ''o1''" 0 sample_report] a c d e
  have 1: "formatDate sample_env (Some ''2023-01-02T00:00:00Z'') = ''1/2/2023''
        \<and> text_content (order_item sample_env (sample_order ''o1'') 0) = ''CBC ()''
        \<and> text_content (report_item sample_env sample_report 0) = ''Note ()''"
    by simp
  from formatDate_empty_or_locale [of sample_env "''soon''"] b
  have 2: "formatDate sample_env (Some ''soon'') = ''Invalid Date''" by blast
  from a b c 1 2 show ?thesis by blast
qed

text \<open>
  C10. \<^verbatim>\<open>handleAddDiagnosticReport\<close> leaves the response cell as it was, and so does the
  click handler: the page renders the same patient, orders and reports after the create
  call as before it, without the new report, until a query is fulfilled again.
\<close>

theorem create_report_keeps_response:
  "(handleAddDiagnosticReport E w = Some (res, w') \<longrightarrow>
      response w' = response w \<and> tab w' = tab w \<and> pending w' = pending w
      \<and> render E w' = render E w)
   \<and> response (onClick E w) = response w
   \<and> render E (onClick E w) = render E w"
  by (auto simp: onClick_def handleAddDiagnosticReport_def Let_def render_def
      split: option.splits)

theorem create_report_keeps_response_witness:
  "\<exists>w'. handleAddDiagnosticReport sample_env sample_world
          = Some (createResource sample_env (reportData sample_env jane), w')
     \<and> CreateResource (reportData sample_env jane) \<in> set (calls w')
     \<and> response w' = Some sample_response
     \<and> reports (data sample_response) = []
     \<and> render sample_env w' = render sample_env sample_world"
proof -
  let ?w' = "sample_world\<lparr>calls := [Graphql (query (Some ''123'')),
                                    CreateResource (reportData sample_env jane)]\<rparr>"
  have hd: "handleAddDiagnosticReport sample_env sample_world
       = Some (createResource sample_env (reportData sample_env jane), ?w')"
    by (simp add: handleAddDiagnosticReport_def Let_def sample_world_def sample_response_def)
  from create_report_keeps_response
         [of sample_env sample_world "createResource sample_env (reportData sample_env jane)" ?w']
       hd
  have "response ?w' = response sample_world
        \<and> render sample_env ?w' = render sample_env sample_world"
    by blast
  moreover have "response sample_world = Some sample_response"
    and "reports (data sample_response) = []"
    by (simp_all add: sample_world_def sample_response_def)
  moreover have "CreateResource (reportData sample_env jane) \<in> set (calls ?w')" by simp
  ultimately show ?thesis using hd by auto
qed

end
